theory Spec2Isabelle
  imports Complex_Main
begin

chapter \<open>Kinematics, loads and joint physics of the Nexus-9 arm simulation\<close>

text \<open>
  A shallow embedding of the simulation component (\<open>KinematicSimulation\<close>): its transform
  helpers, the forward-kinematics chain, the moment, stress and safety-factor estimate,
  the torque table, the trajectory updater and the spring-damper tick, followed by the
  properties the specification states about them.
\<close>

section \<open>Numbers\<close>

text \<open>
  The simulation computes with JavaScript numbers, which are IEEE doubles. Finite
  values are idealised as \<^typ>\<open>real\<close>: rounding is not modelled, so every statement below
  is about the exact arithmetic the code denotes. In particular a test for zero is a
  test on the exact value, which can differ from the code where the exact value is zero
  and the doubles carry rounding noise, or the reverse.

  The safety factor is the one quotient of the code whose divisor is not a non-zero
  constant. For it the outcomes of the JavaScript division that are not finite numbers
  are kept in the type \<open>jsnum\<close>: a zero divisor gives an infinity or \<open>NaN\<close>, and an exact
  quotient of magnitude at least \<open>2^1024 - 2^970\<close>, half a unit in the last place above
  the largest double, overflows to an infinity. The divisor there is a magnitude scaled
  by positive constants, so a zero divisor is the positive zero.
\<close>

datatype jsnum = Finite real | PosInfinity | NegInfinity | NaN

definition JS_OVERFLOW :: real where
  "JS_OVERFLOW = 2 ^ 1024 - 2 ^ 970"

definition js_div :: "real \<Rightarrow> real \<Rightarrow> jsnum" where
  "js_div a b =
     (if b = 0 then (if a = 0 then NaN else if 0 < a then PosInfinity else NegInfinity)
      else if JS_OVERFLOW \<le> a / b then PosInfinity
      else if a / b \<le> - JS_OVERFLOW then NegInfinity
      else Finite (a / b))"


section \<open>Types\<close>

record Vector3 =
  x :: real
  y :: real
  z :: real

type_synonym Matrix4x4 = "real list list"

text \<open>Field \<open>id\<close> of the source is \<open>frameId\<close> here (\<open>id\<close> is the identity function of HOL).\<close>

record FrameData =
  frameId :: nat
  pos :: Vector3
  xAxis :: Vector3
  yAxis :: Vector3
  zAxis :: Vector3
  label :: string

datatype Axis = AxisX | AxisY | AxisZ

datatype Group = Shoulder | Elbow | Wrist | Gripper

text \<open>
  \<open>JointState\<close> of \<open>types.ts\<close>. Fields \<open>id\<close>, \<open>min\<close> and \<open>max\<close> of the source are
  \<open>jid\<close>, \<open>jmin\<close> and \<open>jmax\<close>.
\<close>

record JointState =
  jid :: string
  name :: string
  angle :: real
  targetAngle :: real
  velocity :: real
  jmin :: real
  jmax :: real
  axis :: Axis
  group :: Group

text \<open>\<open>LinkProps\<close>; fields \<open>name\<close> and \<open>length\<close> of the source are \<open>linkName\<close> and \<open>linkLength\<close>.\<close>

record LinkProps =
  linkName :: string
  linkLength :: real
  mass :: real
  od :: real
  thickness :: real
  cogRatio :: real

text \<open>
  \<open>StressResult\<close>. The source's \<open>color\<close> is the string \<open>hsl(<hue>, 80%, 50%)\<close>; the model
  keeps the hue, the only part that varies.
\<close>

record StressResult =
  location :: string
  torqueStatic :: real
  torqueDynamic :: real
  stressMPa :: real
  safetyFactor :: jsnum
  color :: real

text \<open>The object literals \<open>{mass, pos}\<close> of \<open>loadSet\<close>.\<close>

record Load =
  loadMassOf :: real
  loadPos :: Vector3

section \<open>Constants\<close>

definition AL6061_YIELD_STRENGTH :: real where
  "AL6061_YIELD_STRENGTH = 276"

definition GRAVITY :: real where
  "GRAVITY = 9.81"

definition LINKS_UPPER :: LinkProps where
  "LINKS_UPPER = \<lparr>linkName = ''Upper Arm'', linkLength = 0.45, mass = 1.5, od = 0.050,
     thickness = 0.0015, cogRatio = 0.5\<rparr>"

definition LINKS_FOREARM :: LinkProps where
  "LINKS_FOREARM = \<lparr>linkName = ''Forearm'', linkLength = 0.30, mass = 1.5, od = 0.040,
     thickness = 0.0010, cogRatio = 0.5\<rparr>"

definition LINKS_HAND :: LinkProps where
  "LINKS_HAND = \<lparr>linkName = ''Hand'', linkLength = 0.15, mass = 1.0, od = 0.040,
     thickness = 0.0010, cogRatio = 0.5\<rparr>"

section \<open>Math helpers\<close>

definition identity :: Matrix4x4 where
  "identity = [[1, 0, 0, 0], [0, 1, 0, 0], [0, 0, 1, 0], [0, 0, 0, 1]]"

text \<open>
  The triple loop of \<open>multiplyMatrices\<close>: every entry starts at 0 and accumulates
  \<open>m1[r][k] * m2[k][c]\<close> for \<open>k = 0..3\<close>. All matrices of the program are 4 by 4, so
  no index is out of range.
\<close>

definition multiplyMatrices :: "Matrix4x4 \<Rightarrow> Matrix4x4 \<Rightarrow> Matrix4x4" where
  "multiplyMatrices m1 m2 =
     map (\<lambda>r. map (\<lambda>c. foldl (\<lambda>acc k. acc + m1 ! r ! k * m2 ! k ! c) 0 [0..<4]) [0..<4])
       [0..<4]"

definition rotateX :: "real \<Rightarrow> Matrix4x4" where
  "rotateX theta =
     (let c = cos theta; s = sin theta
      in [[1, 0, 0, 0], [0, c, - s, 0], [0, s, c, 0], [0, 0, 0, 1]])"

definition rotateY :: "real \<Rightarrow> Matrix4x4" where
  "rotateY theta =
     (let c = cos theta; s = sin theta
      in [[c, 0, s, 0], [0, 1, 0, 0], [- s, 0, c, 0], [0, 0, 0, 1]])"

definition rotateZ :: "real \<Rightarrow> Matrix4x4" where
  "rotateZ theta =
     (let c = cos theta; s = sin theta
      in [[c, - s, 0, 0], [s, c, 0, 0], [0, 0, 1, 0], [0, 0, 0, 1]])"

definition translate :: "real \<Rightarrow> real \<Rightarrow> real \<Rightarrow> Matrix4x4" where
  "translate tx ty tz = [[1, 0, 0, tx], [0, 1, 0, ty], [0, 0, 1, tz], [0, 0, 0, 1]]"

definition extractFrame :: "Matrix4x4 \<Rightarrow> nat \<Rightarrow> string \<Rightarrow> FrameData" where
  "extractFrame m i l =
     \<lparr>frameId = i,
      pos = \<lparr>x = m ! 0 ! 3, y = m ! 1 ! 3, z = m ! 2 ! 3\<rparr>,
      xAxis = \<lparr>x = m ! 0 ! 0, y = m ! 1 ! 0, z = m ! 2 ! 0\<rparr>,
      yAxis = \<lparr>x = m ! 0 ! 1, y = m ! 1 ! 1, z = m ! 2 ! 1\<rparr>,
      zAxis = \<lparr>x = m ! 0 ! 2, y = m ! 1 ! 2, z = m ! 2 ! 2\<rparr>,
      label = l\<rparr>"

text \<open>\<open>Math.pow(v, 4)\<close> is the fourth power.\<close>

definition calculateInertia :: "real \<Rightarrow> real \<Rightarrow> real" where
  "calculateInertia od' thickness' =
     (let id' = od' - 2 * thickness'
      in (pi * (od' ^ 4 - id' ^ 4)) / 64)"

definition crossProduct :: "Vector3 \<Rightarrow> Vector3 \<Rightarrow> Vector3" where
  "crossProduct a b =
     \<lparr>x = y a * z b - z a * y b,
      y = z a * x b - x a * z b,
      z = x a * y b - y a * x b\<rparr>"

definition magnitude :: "Vector3 \<Rightarrow> real" where
  "magnitude v = sqrt (x v * x v + y v * y v + z v * z v)"

definition lerpVector :: "Vector3 \<Rightarrow> Vector3 \<Rightarrow> real \<Rightarrow> Vector3" where
  "lerpVector v1 v2 t =
     \<lparr>x = x v1 + (x v2 - x v1) * t,
      y = y v1 + (y v2 - y v1) * t,
      z = z v1 + (z v2 - z v1) * t\<rparr>"

text \<open>The hue of \<open>getStressColor\<close>.\<close>

definition getStressColor :: "real \<Rightarrow> real" where
  "getStressColor stress =
     (let ratio = min (stress / AL6061_YIELD_STRENGTH) 1.2;
          hue = max 0 (240 - (ratio * 240))
      in hue)"

section \<open>Component state\<close>

definition initialJoints :: "JointState list" where
  "initialJoints =
    [\<lparr>jid = ''j1'', name = ''Shoulder Z (Yaw)'', angle = 0, targetAngle = 0, velocity = 0,
       jmin = -90, jmax = 90, axis = AxisZ, group = Shoulder\<rparr>,
     \<lparr>jid = ''j2'', name = ''Shoulder Y (Pitch)'', angle = 0, targetAngle = 0, velocity = 0,
       jmin = -90, jmax = 90, axis = AxisY, group = Shoulder\<rparr>,
     \<lparr>jid = ''j3'', name = ''Shoulder X (Roll)'', angle = 0, targetAngle = 0, velocity = 0,
       jmin = -45, jmax = 45, axis = AxisX, group = Shoulder\<rparr>,
     \<lparr>jid = ''j4'', name = ''Elbow Z (Yaw)'', angle = -180, targetAngle = -180, velocity = 0,
       jmin = -270, jmax = -90, axis = AxisZ, group = Elbow\<rparr>,
     \<lparr>jid = ''j5'', name = ''Elbow Y (Pitch)'', angle = -180, targetAngle = -180, velocity = 0,
       jmin = -270, jmax = -90, axis = AxisY, group = Elbow\<rparr>,
     \<lparr>jid = ''j6'', name = ''Elbow X (Roll)'', angle = 0, targetAngle = 0, velocity = 0,
       jmin = -45, jmax = 45, axis = AxisX, group = Elbow\<rparr>,
     \<lparr>jid = ''j7_x'', name = ''Wrist X (Roll)'', angle = 0, targetAngle = 0, velocity = 0,
       jmin = -45, jmax = 45, axis = AxisX, group = Wrist\<rparr>,
     \<lparr>jid = ''j7_y'', name = ''Wrist Y (Pitch)'', angle = 0, targetAngle = 0, velocity = 0,
       jmin = -45, jmax = 45, axis = AxisY, group = Wrist\<rparr>,
     \<lparr>jid = ''j7_z'', name = ''Wrist Z (Yaw)'', angle = 0, targetAngle = 0, velocity = 0,
       jmin = -45, jmax = 45, axis = AxisZ, group = Wrist\<rparr>,
     \<lparr>jid = ''j9'', name = ''Gripper'', angle = 50, targetAngle = 50, velocity = 0,
       jmin = 0, jmax = 100, axis = AxisX, group = Gripper\<rparr>]"

section \<open>Forward kinematics\<close>

definition toRad :: "real \<Rightarrow> real" where
  "toRad deg = deg * pi / 180"

text \<open>
  The source assigns \<open>TGlobal\<close> thirteen times; \<open>TGlobal0\<close> to \<open>TGlobal12\<close> are its
  successive values.
\<close>

definition TGlobal0 :: Matrix4x4 where
  "TGlobal0 = identity"

definition TGlobal1 :: "JointState list \<Rightarrow> Matrix4x4" where
  "TGlobal1 joints = multiplyMatrices TGlobal0 (rotateZ (toRad (angle (joints ! 0))))"

definition TGlobal2 :: "JointState list \<Rightarrow> Matrix4x4" where
  "TGlobal2 joints = multiplyMatrices (TGlobal1 joints) (rotateY (toRad (angle (joints ! 1))))"

definition TGlobal3 :: "JointState list \<Rightarrow> Matrix4x4" where
  "TGlobal3 joints = multiplyMatrices (TGlobal2 joints) (rotateX (toRad (angle (joints ! 2))))"

definition TGlobal4 :: "JointState list \<Rightarrow> Matrix4x4" where
  "TGlobal4 joints = multiplyMatrices (TGlobal3 joints) (translate (linkLength LINKS_UPPER) 0 0)"

definition TGlobal5 :: "JointState list \<Rightarrow> Matrix4x4" where
  "TGlobal5 joints = multiplyMatrices (TGlobal4 joints) (rotateZ (toRad (angle (joints ! 3))))"

definition TGlobal6 :: "JointState list \<Rightarrow> Matrix4x4" where
  "TGlobal6 joints = multiplyMatrices (TGlobal5 joints) (rotateY (toRad (angle (joints ! 4))))"

definition TGlobal7 :: "JointState list \<Rightarrow> Matrix4x4" where
  "TGlobal7 joints = multiplyMatrices (TGlobal6 joints) (rotateX (toRad (angle (joints ! 5))))"

definition TGlobal8 :: "JointState list \<Rightarrow> Matrix4x4" where
  "TGlobal8 joints = multiplyMatrices (TGlobal7 joints) (translate (linkLength LINKS_FOREARM) 0 0)"

definition TGlobal9 :: "JointState list \<Rightarrow> Matrix4x4" where
  "TGlobal9 joints = multiplyMatrices (TGlobal8 joints) (rotateX (toRad (angle (joints ! 6))))"

definition TGlobal10 :: "JointState list \<Rightarrow> Matrix4x4" where
  "TGlobal10 joints = multiplyMatrices (TGlobal9 joints) (rotateY (toRad (angle (joints ! 7))))"

definition TGlobal11 :: "JointState list \<Rightarrow> Matrix4x4" where
  "TGlobal11 joints = multiplyMatrices (TGlobal10 joints) (rotateZ (toRad (angle (joints ! 8))))"

definition TGlobal12 :: "JointState list \<Rightarrow> Matrix4x4" where
  "TGlobal12 joints = multiplyMatrices (TGlobal11 joints) (translate (linkLength LINKS_HAND) 0 0)"

definition frames0 :: FrameData where
  "frames0 = extractFrame TGlobal0 0 ''Base''"

definition frameJ1 :: "JointState list \<Rightarrow> FrameData" where
  "frameJ1 joints = extractFrame (TGlobal1 joints) 1 ''J1 (Sh_Z)''"

definition frameJ2 :: "JointState list \<Rightarrow> FrameData" where
  "frameJ2 joints = extractFrame (TGlobal2 joints) 2 ''J2 (Sh_Y)''"

definition frameJ3 :: "JointState list \<Rightarrow> FrameData" where
  "frameJ3 joints = extractFrame (TGlobal3 joints) 3 ''J3 (Sh_X)''"

definition frameJ4 :: "JointState list \<Rightarrow> FrameData" where
  "frameJ4 joints = extractFrame (TGlobal5 joints) 4 ''J4 (Elb_Z)''"

definition frameJ5 :: "JointState list \<Rightarrow> FrameData" where
  "frameJ5 joints = extractFrame (TGlobal6 joints) 5 ''J5 (Elb_Y)''"

definition frameJ6 :: "JointState list \<Rightarrow> FrameData" where
  "frameJ6 joints = extractFrame (TGlobal7 joints) 6 ''J6 (Elb_X)''"

definition frameJ7X :: "JointState list \<Rightarrow> FrameData" where
  "frameJ7X joints = extractFrame (TGlobal9 joints) 7 ''J7 (Wr_X)''"

definition frameJ7Y :: "JointState list \<Rightarrow> FrameData" where
  "frameJ7Y joints = extractFrame (TGlobal10 joints) 8 ''J8 (Wr_Y)''"

definition frameJ7Z :: "JointState list \<Rightarrow> FrameData" where
  "frameJ7Z joints = extractFrame (TGlobal11 joints) 9 ''J9 (Wr_Z)''"

definition endEffectorFrame :: "JointState list \<Rightarrow> FrameData" where
  "endEffectorFrame joints = extractFrame (TGlobal12 joints) 10 ''EE''"

definition allFrames :: "JointState list \<Rightarrow> FrameData list" where
  "allFrames joints =
     [frames0,
      frameJ1 joints, frameJ2 joints, frameJ3 joints,
      frameJ4 joints, frameJ5 joints, frameJ6 joints,
      frameJ7X joints, frameJ7Y joints, frameJ7Z joints,
      endEffectorFrame joints]"

definition endEffector :: "JointState list \<Rightarrow> Vector3" where
  "endEffector joints = pos (endEffectorFrame joints)"

section \<open>Torque and stress\<close>

definition cogUpper :: "JointState list \<Rightarrow> Vector3" where
  "cogUpper joints = lerpVector (pos (frameJ3 joints)) (pos (frameJ4 joints)) (cogRatio LINKS_UPPER)"

definition cogFore :: "JointState list \<Rightarrow> Vector3" where
  "cogFore joints = lerpVector (pos (frameJ6 joints)) (pos (frameJ7X joints)) (cogRatio LINKS_FOREARM)"

definition cogHand :: "JointState list \<Rightarrow> Vector3" where
  "cogHand joints = lerpVector (pos (frameJ7Z joints)) (endEffector joints) (cogRatio LINKS_HAND)"

definition reach :: "JointState list \<Rightarrow> real" where
  "reach joints =
     magnitude \<lparr>x = x (endEffector joints) - x (pos frames0),
                y = y (endEffector joints) - y (pos frames0),
                z = z (endEffector joints) - z (pos frames0)\<rparr>"

text \<open>
  \<open>calculateMoment\<close>: the body of its \<open>forEach\<close> is \<open>momentStep\<close>, the final value of its
  local \<open>totalM\<close> is \<open>totalMoment\<close>, and the function returns the magnitude of that vector.
\<close>

definition momentStep :: "Vector3 \<Rightarrow> Vector3 \<Rightarrow> Load \<Rightarrow> Vector3" where
  "momentStep pivot totalM L =
     (let r = \<lparr>x = x (loadPos L) - x pivot, y = y (loadPos L) - y pivot,
                z = z (loadPos L) - z pivot\<rparr>;
          F = \<lparr>x = 0, y = 0, z = - loadMassOf L * GRAVITY\<rparr>;
          M = crossProduct r F
      in \<lparr>x = x totalM + x M, y = y totalM + y M, z = z totalM + z M\<rparr>)"

definition totalMoment :: "Vector3 \<Rightarrow> Load list \<Rightarrow> Vector3" where
  "totalMoment pivot loads = foldl (momentStep pivot) \<lparr>x = 0, y = 0, z = 0\<rparr> loads"

definition calculateMoment :: "Vector3 \<Rightarrow> Load list \<Rightarrow> real" where
  "calculateMoment pivot loads = magnitude (totalMoment pivot loads)"

definition loadSet :: "JointState list \<Rightarrow> real \<Rightarrow> Load list" where
  "loadSet joints loadMass =
     [\<lparr>loadMassOf = mass LINKS_UPPER, loadPos = cogUpper joints\<rparr>,
      \<lparr>loadMassOf = mass LINKS_FOREARM, loadPos = cogFore joints\<rparr>,
      \<lparr>loadMassOf = mass LINKS_HAND, loadPos = cogHand joints\<rparr>,
      \<lparr>loadMassOf = loadMass, loadPos = endEffector joints\<rparr>]"

text \<open>
  \<open>torqueMap\<close> is an object used as a dictionary from joint ids to numbers. First the
  three pivot entries are written (\<open>slice(1)\<close> and \<open>slice(2)\<close> drop the first one and two
  loads); then \<open>joints.forEach\<close> writes 0.1 to every joint id whose entry is falsy, that
  is absent or equal to 0.
\<close>

definition torqueMapPivots :: "JointState list \<Rightarrow> real \<Rightarrow> (string \<rightharpoonup> real)" where
  "torqueMapPivots joints loadMass =
     ((Map.empty
        (''j2'' \<mapsto> calculateMoment (pos (frameJ2 joints)) (loadSet joints loadMass)))
        (''j5'' \<mapsto> calculateMoment (pos (frameJ5 joints)) (drop 1 (loadSet joints loadMass))))
        (''j7_y'' \<mapsto> calculateMoment (pos (frameJ7Y joints)) (drop 2 (loadSet joints loadMass)))"

fun falsy :: "real option \<Rightarrow> bool" where
  "falsy None = True"
| "falsy (Some v) = (v = 0)"

definition fillTorque :: "(string \<rightharpoonup> real) \<Rightarrow> JointState \<Rightarrow> (string \<rightharpoonup> real)" where
  "fillTorque tm j = (if falsy (tm (jid j)) then tm(jid j \<mapsto> 0.1) else tm)"

definition torqueMap :: "JointState list \<Rightarrow> real \<Rightarrow> (string \<rightharpoonup> real)" where
  "torqueMap joints loadMass = foldl fillTorque (torqueMapPivots joints loadMass) joints"

definition calcStress :: "real \<Rightarrow> LinkProps \<Rightarrow> real" where
  "calcStress torque link =
     (let I = calculateInertia (od link) (thickness link);
          c = od link / 2
      in ((torque * c) / I) / 1000000)"

text \<open>
  The reads \<open>torqueMap['j2']\<close>, \<open>torqueMap['j5']\<close> and \<open>torqueMap['j7_y']\<close> come after the
  three writes above, so the entries exist (lemma \<open>torqueMap_pivots_defined\<close>).
\<close>

definition stressS :: "JointState list \<Rightarrow> real \<Rightarrow> real" where
  "stressS joints loadMass = calcStress (the (torqueMap joints loadMass ''j2'')) LINKS_UPPER"

definition stressE :: "JointState list \<Rightarrow> real \<Rightarrow> real" where
  "stressE joints loadMass = calcStress (the (torqueMap joints loadMass ''j5'')) LINKS_FOREARM"

definition stressW :: "JointState list \<Rightarrow> real \<Rightarrow> real" where
  "stressW joints loadMass = calcStress (the (torqueMap joints loadMass ''j7_y'')) LINKS_HAND"

text \<open>
  The three object literals passed to \<open>setStressResults\<close> differ only in the location,
  the torque and the stress; \<open>stressEntry\<close> is that literal.
\<close>

definition stressEntry :: "string \<Rightarrow> real \<Rightarrow> real \<Rightarrow> StressResult" where
  "stressEntry loc torque stress =
     \<lparr>location = loc, torqueStatic = torque, torqueDynamic = 0, stressMPa = stress,
      safetyFactor = js_div AL6061_YIELD_STRENGTH stress, color = getStressColor stress\<rparr>"

definition stressResults :: "JointState list \<Rightarrow> real \<Rightarrow> StressResult list" where
  "stressResults joints loadMass =
     [stressEntry ''Shoulder'' (the (torqueMap joints loadMass ''j2'')) (stressS joints loadMass),
      stressEntry ''Elbow'' (the (torqueMap joints loadMass ''j5'')) (stressE joints loadMass),
      stressEntry ''Wrist'' (the (torqueMap joints loadMass ''j7_y'')) (stressW joints loadMass)]"

text \<open>
  The kinematics and stress part of the render effect, from \<open>joints\<close> and \<open>loadMass\<close> to
  the values it publishes. Reading \<open>joints[i].angle\<close> for \<open>i = 0..8\<close> raises a TypeError
  when the array has fewer than nine entries; nothing is published before those reads.
\<close>

datatype error = TypeError

record Evaluation =
  evalFrames :: "FrameData list"
  evalEndEffector :: Vector3
  evalReach :: real
  evalJointTorques :: "string \<rightharpoonup> real"
  evalStressResults :: "StressResult list"

definition renderEffect :: "JointState list \<Rightarrow> real \<Rightarrow> error + Evaluation" where
  "renderEffect joints loadMass =
     (if length joints < 9 then Inl TypeError
      else Inr \<lparr>evalFrames = allFrames joints,
                evalEndEffector = endEffector joints,
                evalReach = reach joints,
                evalJointTorques = torqueMap joints loadMass,
                evalStressResults = stressResults joints loadMass\<rparr>)"

section \<open>Trajectory\<close>

text \<open>\<open>xs.slice(-n)\<close>: the last \<open>n\<close> elements, all of them when there are fewer.\<close>

definition sliceLast :: "nat \<Rightarrow> 'a list \<Rightarrow> 'a list" where
  "sliceLast n xs = drop (length xs - n) xs"

text \<open>
  The updater given to \<open>setTrajectory\<close>. \<open>prev[prev.length - 1]\<close> is undefined, hence
  falsy, exactly when \<open>prev\<close> is empty.
\<close>

definition updateTrajectory :: "Vector3 list \<Rightarrow> Vector3 \<Rightarrow> Vector3 list" where
  "updateTrajectory prev ee =
     (if prev \<noteq> [] \<and> \<bar>x (last prev) - x ee\<bar> < 0.005 \<and> \<bar>y (last prev) - y ee\<bar> < 0.005
      then prev
      else sliceLast 150 (prev @ [ee]))"

section \<open>Joint physics\<close>

text \<open>
  The state the animation callback reads and writes: the closure variable \<open>lastTime\<close>,
  \<open>timeRef.current\<close>, \<open>isPlayingRef.current\<close> and the joints. The updater given to
  \<open>setJoints\<close> is taken to run before the next callback, so it sees the values of the
  two refs that this callback left.
\<close>

record AnimState =
  lastTime :: real
  timeRef :: real
  isPlayingRef :: bool
  jointsState :: "JointState list"

definition stepJoint :: "real \<Rightarrow> real \<Rightarrow> bool \<Rightarrow> nat \<Rightarrow> JointState \<Rightarrow> JointState" where
  "stepJoint dt t playing i j =
     (let target =
            (if playing \<and> group j \<noteq> Gripper
             then (let offset = real i * 0.5;
                       amp = (jmax j - jmin j) * 0.15;
                       center = (jmax j + jmin j) / 2
                   in center + sin (t * 1.5 + offset) * amp)
             else targetAngle j);
          stiffness = 120;
          damping = 15;
          inertia0 = 1.0;
          inertia1 = (if group j = Shoulder then 2.5 else inertia0);
          inertia2 = (if group j = Elbow then 1.5 else inertia1);
          inertia = (if group j = Wrist then 0.5 else inertia2);
          error = target - angle j;
          acceleration = (stiffness * error - damping * velocity j) / inertia;
          newVelocity = velocity j + acceleration * dt;
          newAngle = angle j + newVelocity * dt
      in j\<lparr>angle := newAngle, velocity := newVelocity, targetAngle := target\<rparr>)"

definition animate :: "AnimState \<Rightarrow> real \<Rightarrow> AnimState" where
  "animate st time =
     (let dt = min ((time - lastTime st) / 1000) 0.1;
          t = (if isPlayingRef st then timeRef st + dt else timeRef st)
      in \<lparr>lastTime = time,
          timeRef = t,
          isPlayingRef = isPlayingRef st,
          jointsState =
            map (\<lambda>(i, j). stepJoint dt t (isPlayingRef st) i j)
              (enumerate 0 (jointsState st))\<rparr>)"

section \<open>The kinematic chain as the specification words it\<close>

text \<open>
  The specification describes the pose of each frame as a chain of joint rotations and
  link translations: the Shoulder rotations about Z, Y and X, the Upper Arm translation
  along the local X axis, the Elbow rotations about Z, Y and X, the Forearm translation,
  the Wrist rotations about X, Y and Z, and the Hand translation, each one multiplied
  on the right of what came before. Below, a rotation or translation is the map of
  points it performs (right-handed rotations by an angle in radians), \<open>specMaps\<close> lists
  the twelve factors with the angles converted from degrees and the link lengths 0.45,
  0.30 and 0.15 m, and \<open>specPose joints k\<close> is the map from the local coordinates after
  \<open>k\<close> factors to base coordinates: multiplying a factor on the right means that the
  factor acts first. \<open>specFrame\<close> is the frame of such a map: the image of the origin
  and the images of the three unit vectors relative to it.
\<close>

definition specRotX :: "real \<Rightarrow> Vector3 \<Rightarrow> Vector3" where
  "specRotX t v = \<lparr>x = x v, y = y v * cos t - z v * sin t, z = y v * sin t + z v * cos t\<rparr>"

definition specRotY :: "real \<Rightarrow> Vector3 \<Rightarrow> Vector3" where
  "specRotY t v = \<lparr>x = x v * cos t + z v * sin t, y = y v, z = z v * cos t - x v * sin t\<rparr>"

definition specRotZ :: "real \<Rightarrow> Vector3 \<Rightarrow> Vector3" where
  "specRotZ t v = \<lparr>x = x v * cos t - y v * sin t, y = x v * sin t + y v * cos t, z = z v\<rparr>"

definition specTransX :: "real \<Rightarrow> Vector3 \<Rightarrow> Vector3" where
  "specTransX d v = \<lparr>x = x v + d, y = y v, z = z v\<rparr>"

definition specMaps :: "JointState list \<Rightarrow> (Vector3 \<Rightarrow> Vector3) list" where
  "specMaps joints =
     [specRotZ (angle (joints ! 0) * pi / 180),
      specRotY (angle (joints ! 1) * pi / 180),
      specRotX (angle (joints ! 2) * pi / 180),
      specTransX 0.45,
      specRotZ (angle (joints ! 3) * pi / 180),
      specRotY (angle (joints ! 4) * pi / 180),
      specRotX (angle (joints ! 5) * pi / 180),
      specTransX 0.30,
      specRotX (angle (joints ! 6) * pi / 180),
      specRotY (angle (joints ! 7) * pi / 180),
      specRotZ (angle (joints ! 8) * pi / 180),
      specTransX 0.15]"

definition specPose :: "JointState list \<Rightarrow> nat \<Rightarrow> Vector3 \<Rightarrow> Vector3" where
  "specPose joints k = foldl (\<lambda>A f. A \<circ> f) (\<lambda>v. v) (take k (specMaps joints))"

definition specFrame :: "(Vector3 \<Rightarrow> Vector3) \<Rightarrow> nat \<Rightarrow> string \<Rightarrow> FrameData" where
  "specFrame A i l =
     (let o' = A \<lparr>x = 0, y = 0, z = 0\<rparr>;
          ex = A \<lparr>x = 1, y = 0, z = 0\<rparr>;
          ey = A \<lparr>x = 0, y = 1, z = 0\<rparr>;
          ez = A \<lparr>x = 0, y = 0, z = 1\<rparr>
      in \<lparr>frameId = i, pos = o',
          xAxis = \<lparr>x = x ex - x o', y = y ex - y o', z = z ex - z o'\<rparr>,
          yAxis = \<lparr>x = x ey - x o', y = y ey - y o', z = z ey - z o'\<rparr>,
          zAxis = \<lparr>x = x ez - x o', y = y ez - y o', z = z ez - z o'\<rparr>,
          label = l\<rparr>)"

text \<open>
  The map of points that a homogeneous 4 by 4 matrix performs; it links the matrices of
  the code to the maps above.
\<close>

definition pointMap :: "Matrix4x4 \<Rightarrow> Vector3 \<Rightarrow> Vector3" where
  "pointMap m v =
     \<lparr>x = m ! 0 ! 0 * x v + m ! 0 ! 1 * y v + m ! 0 ! 2 * z v + m ! 0 ! 3,
      y = m ! 1 ! 0 * x v + m ! 1 ! 1 * y v + m ! 1 ! 2 * z v + m ! 1 ! 3,
      z = m ! 2 ! 0 * x v + m ! 2 ! 1 * y v + m ! 2 ! 2 * z v + m ! 2 ! 3\<rparr>"

section \<open>The moment at a pivot as the specification words it\<close>




section \<open>A pose used as a counterexample\<close>


section \<open>Auxiliary facts\<close>

lemma upt4: "[0..<4] = [0, 1, 2, 3]"
  by (simp add: upt_rec)

lemma multiplyMatrices_rows:
  "multiplyMatrices m1 m2 =
     map (\<lambda>r. map (\<lambda>c. m1 ! r ! 0 * m2 ! 0 ! c + m1 ! r ! 1 * m2 ! 1 ! c
                       + m1 ! r ! 2 * m2 ! 2 ! c + m1 ! r ! 3 * m2 ! 3 ! c) [0, 1, 2, 3])
       [0, 1, 2, 3]"
  by (simp add: multiplyMatrices_def upt4)

lemma toRad_zero: "toRad 0 = 0"
  by (simp add: toRad_def)

lemma rotate_zero: "rotateX 0 = identity" "rotateY 0 = identity" "rotateZ 0 = identity"
  by (simp_all add: rotateX_def rotateY_def rotateZ_def identity_def)

lemma mult_identity_identity: "multiplyMatrices identity identity = identity"
  by (simp add: multiplyMatrices_rows identity_def)

lemma mult_identity_translate: "multiplyMatrices identity (translate a 0 0) = translate a 0 0"
  by (simp add: multiplyMatrices_rows identity_def translate_def)

lemma mult_translate_identity: "multiplyMatrices (translate a 0 0) identity = translate a 0 0"
  by (simp add: multiplyMatrices_rows identity_def translate_def)

lemma mult_translate_translate:
  "multiplyMatrices (translate a 0 0) (translate b 0 0) = translate (a + b) 0 0"
  by (simp add: multiplyMatrices_rows translate_def)

lemma length_initialJoints: "length initialJoints = 10"
  by (simp add: initialJoints_def)

lemma renderEffect_ok:
  "9 \<le> length joints \<Longrightarrow>
   renderEffect joints loadMass =
     Inr \<lparr>evalFrames = allFrames joints, evalEndEffector = endEffector joints,
          evalReach = reach joints, evalJointTorques = torqueMap joints loadMass,
          evalStressResults = stressResults joints loadMass\<rparr>"
  by (simp add: renderEffect_def)

lemma endEffector_zero_angles:
  assumes "\<forall>i<9. angle (joints ! i) = 0"
  shows "endEffector joints = \<lparr>x = 0.9, y = 0, z = 0\<rparr>"
proof -
  have a: "angle (joints ! 0) = 0" "angle (joints ! 1) = 0" "angle (joints ! 2) = 0"
    "angle (joints ! 3) = 0" "angle (joints ! 4) = 0" "angle (joints ! 5) = 0"
    "angle (joints ! 6) = 0" "angle (joints ! 7) = 0" "angle (joints ! 8) = 0"
    using assms by simp_all
  have a1: "angle (joints ! Suc 0) = 0"
    using a(2) by simp
  have "TGlobal12 joints = translate 0.9 0 0"
    by (simp add: TGlobal12_def TGlobal11_def TGlobal10_def TGlobal9_def TGlobal8_def
        TGlobal7_def TGlobal6_def TGlobal5_def TGlobal4_def TGlobal3_def TGlobal2_def
        TGlobal1_def TGlobal0_def a a1 toRad_zero rotate_zero mult_identity_identity
        mult_identity_translate mult_translate_identity mult_translate_translate
        LINKS_UPPER_def LINKS_FOREARM_def LINKS_HAND_def)
  then show ?thesis
    by (simp add: endEffector_def endEffectorFrame_def extractFrame_def translate_def)
qed

lemma calcStress_formula:
  "calcStress torque link =
     torque * (od link / 2) / (pi * (od link ^ 4 - (od link - 2 * thickness link) ^ 4) / 64)
       / 1000000"
  by (simp add: calcStress_def calculateInertia_def Let_def)

lemma length_sliceLast: "length (sliceLast n xs) = min n (length xs)"
  by (simp add: sliceLast_def)

lemma length_updateTrajectory:
  "length prev \<le> 150 \<Longrightarrow> length (updateTrajectory prev ee) \<le> 150"
  by (simp add: updateTrajectory_def length_sliceLast)

lemma length_foldl_updateTrajectory:
  "length prev \<le> 150 \<Longrightarrow> length (foldl updateTrajectory prev pts) \<le> 150"
  by (induction pts arbitrary: prev) (simp_all add: length_updateTrajectory)

lemma updateTrajectory_full:
  assumes "length prev = 150"
    and "\<not> (\<bar>x (last prev) - x ee\<bar> < 0.005 \<and> \<bar>y (last prev) - y ee\<bar> < 0.005)"
  shows "updateTrajectory prev ee = tl prev @ [ee]"
proof -
  from assms(1) obtain p ps where "prev = p # ps"
    by (cases prev) auto
  with assms show ?thesis
    by (auto simp add: updateTrajectory_def sliceLast_def)
qed

text \<open>
  What the \<open>forEach\<close> over the joints leaves in the dictionary: 0.1 under every joint id
  whose entry was absent or zero, and the old entry everywhere else.
\<close>

lemma foldl_fillTorque:
  "foldl fillTorque tm js k = (if k \<in> jid ` set js \<and> falsy (tm k) then Some 0.1 else tm k)"
  by (induction js arbitrary: tm) (auto simp add: fillTorque_def)


subsection \<open>Matrices as maps of points\<close>

lemma pointMap_identity: "pointMap identity v = v"
  by (simp add: pointMap_def identity_def)

lemma pointMap_rotateX: "pointMap (multiplyMatrices m (rotateX t)) v = pointMap m (specRotX t v)"
  by (simp add: pointMap_def multiplyMatrices_rows rotateX_def specRotX_def Let_def algebra_simps)

lemma pointMap_rotateY: "pointMap (multiplyMatrices m (rotateY t)) v = pointMap m (specRotY t v)"
  by (simp add: pointMap_def multiplyMatrices_rows rotateY_def specRotY_def Let_def algebra_simps)

lemma pointMap_rotateZ: "pointMap (multiplyMatrices m (rotateZ t)) v = pointMap m (specRotZ t v)"
  by (simp add: pointMap_def multiplyMatrices_rows rotateZ_def specRotZ_def Let_def algebra_simps)

lemma pointMap_translate:
  "pointMap (multiplyMatrices m (translate d 0 0)) v = pointMap m (specTransX d v)"
  by (simp add: pointMap_def multiplyMatrices_rows translate_def specTransX_def algebra_simps)

lemma extractFrame_pointMap: "extractFrame m i l = specFrame (pointMap m) i l"
  by (simp add: extractFrame_def specFrame_def pointMap_def Let_def)

lemma specPose_stages:
  "specPose joints 0 = pointMap TGlobal0"
  "specPose joints 1 = pointMap (TGlobal1 joints)"
  "specPose joints (Suc 0) = pointMap (TGlobal1 joints)"
  "specPose joints 2 = pointMap (TGlobal2 joints)"
  "specPose joints 3 = pointMap (TGlobal3 joints)"
  "specPose joints 5 = pointMap (TGlobal5 joints)"
  "specPose joints 6 = pointMap (TGlobal6 joints)"
  "specPose joints 7 = pointMap (TGlobal7 joints)"
  "specPose joints 9 = pointMap (TGlobal9 joints)"
  "specPose joints 10 = pointMap (TGlobal10 joints)"
  "specPose joints 11 = pointMap (TGlobal11 joints)"
  "specPose joints 12 = pointMap (TGlobal12 joints)"
  by (rule ext, simp add: specPose_def specMaps_def TGlobal12_def TGlobal11_def
        TGlobal10_def TGlobal9_def TGlobal8_def TGlobal7_def TGlobal6_def TGlobal5_def
        TGlobal4_def TGlobal3_def TGlobal2_def TGlobal1_def TGlobal0_def
        pointMap_rotateX pointMap_rotateY pointMap_rotateZ pointMap_translate
        pointMap_identity toRad_def LINKS_UPPER_def LINKS_FOREARM_def LINKS_HAND_def)+

subsection \<open>Moments\<close>

lemma magnitude_nonneg: "0 \<le> magnitude v"
  by (simp add: magnitude_def)


subsection \<open>The torque table at the pivots\<close>




lemma torqueMap_pivots_defined:
  "torqueMap joints m ''j2'' \<noteq> None" "torqueMap joints m ''j5'' \<noteq> None"
  "torqueMap joints m ''j7_y'' \<noteq> None"
  by (simp_all add: torqueMap_def foldl_fillTorque torqueMapPivots_def del: not_None_eq)

subsection \<open>Stress and safety factor\<close>




subsection \<open>The position of the wrist frames\<close>


subsection \<open>The initial pose\<close>






















subsection \<open>The folded pose\<close>




















subsection \<open>The moment of the code and the moment of the specification\<close>









subsection \<open>Published torque and safety factor against the payload\<close>
















section \<open>Forward kinematics: the claims\<close>

text \<open>
  Claim C4. When the first nine joint angles are all zero, the evaluation succeeds and
  the end-effector position it publishes, which is also the position of the last frame,
  is the point whose X coordinate is the sum of the three link lengths,
  0.45 + 0.30 + 0.15 = 0.9, and whose Y and Z coordinates are 0.
\<close>

theorem C4_zero_pose_end_effector:
  assumes "9 \<le> length joints" and "\<forall>i<9. angle (joints ! i) = 0"
  shows "\<exists>out. renderEffect joints loadMass = Inr out
           \<and> evalEndEffector out =
               \<lparr>x = linkLength LINKS_UPPER + linkLength LINKS_FOREARM + linkLength LINKS_HAND,
                y = 0, z = 0\<rparr>
           \<and> evalEndEffector out = \<lparr>x = 0.9, y = 0, z = 0\<rparr>
           \<and> pos (last (evalFrames out)) = \<lparr>x = 0.9, y = 0, z = 0\<rparr>"
proof -
  have ee: "endEffector joints = \<lparr>x = 0.9, y = 0, z = 0\<rparr>"
    using assms(2) by (rule endEffector_zero_angles)
  have "pos (last (allFrames joints)) = endEffector joints"
    by (simp add: allFrames_def endEffector_def)
  with ee assms(1) show ?thesis
    by (simp add: renderEffect_ok LINKS_UPPER_def LINKS_FOREARM_def LINKS_HAND_def)
qed

theorem C4_zero_pose_end_effector_witness:
  "\<exists>out. renderEffect (map (\<lambda>j. j\<lparr>angle := 0\<rparr>) initialJoints) 5 = Inr out
        \<and> evalEndEffector out = \<lparr>x = 0.9, y = 0, z = 0\<rparr>"
proof -
  have l: "9 \<le> length (map (\<lambda>j. j\<lparr>angle := 0\<rparr>) initialJoints)"
    by (simp add: length_initialJoints)
  have z0: "\<forall>i<9. angle (map (\<lambda>j. j\<lparr>angle := 0\<rparr>) initialJoints ! i) = 0"
    by (simp add: length_initialJoints)
  from C4_zero_pose_end_effector [OF l z0, of 5] show ?thesis by blast
qed

text \<open>
  Claim C5. The frames of a successful evaluation are the frames of the poses that the
  specification's chain describes: the Base frame is the frame of the identity, and
  every later frame is the frame of the map from local to base coordinates obtained by
  composing, in this order, the Shoulder rotations about Z, Y and X, the Upper Arm
  translation along local X, the Elbow rotations about Z, Y and X, the Forearm
  translation, the Wrist rotations about X, Y and Z, and the Hand translation, each new
  factor acting first, in the local coordinates of what came before. The joint frames
  are taken after each rotation and the end-effector frame after the last translation.
\<close>

theorem C5_chain_order:
  assumes "9 \<le> length joints"
  shows "\<exists>out. renderEffect joints loadMass = Inr out
           \<and> evalFrames out =
               [specFrame (specPose joints 0) 0 ''Base'',
                specFrame (specPose joints 1) 1 ''J1 (Sh_Z)'',
                specFrame (specPose joints 2) 2 ''J2 (Sh_Y)'',
                specFrame (specPose joints 3) 3 ''J3 (Sh_X)'',
                specFrame (specPose joints 5) 4 ''J4 (Elb_Z)'',
                specFrame (specPose joints 6) 5 ''J5 (Elb_Y)'',
                specFrame (specPose joints 7) 6 ''J6 (Elb_X)'',
                specFrame (specPose joints 9) 7 ''J7 (Wr_X)'',
                specFrame (specPose joints 10) 8 ''J8 (Wr_Y)'',
                specFrame (specPose joints 11) 9 ''J9 (Wr_Z)'',
                specFrame (specPose joints 12) 10 ''EE'']"
  using assms
  by (simp add: renderEffect_ok specPose_stages allFrames_def frames0_def frameJ1_def frameJ2_def
        frameJ3_def frameJ4_def frameJ5_def frameJ6_def frameJ7X_def frameJ7Y_def
        frameJ7Z_def endEffectorFrame_def extractFrame_pointMap)

theorem C5_chain_order_witness:
  "\<exists>out. renderEffect initialJoints 5 = Inr out
        \<and> evalFrames out ! 10 = specFrame (specPose initialJoints 12) 10 ''EE''"
proof -
  have l: "9 \<le> length initialJoints"
    by (simp add: length_initialJoints)
  from C5_chain_order [OF l, of 5] show ?thesis by auto
qed

text \<open>
  Claim C6, as amended. Every successful evaluation publishes exactly 11 frames: the
  Base frame first (id 0), one frame after each of the nine joint rotations, and the
  end-effector frame last (id 10).
\<close>

theorem C6_eleven_frames:
  assumes "9 \<le> length joints"
  shows "\<exists>out. renderEffect joints loadMass = Inr out
           \<and> length (evalFrames out) = 11
           \<and> label (hd (evalFrames out)) = ''Base'' \<and> frameId (hd (evalFrames out)) = 0
           \<and> label (last (evalFrames out)) = ''EE'' \<and> frameId (last (evalFrames out)) = 10"
  using assms
  by (simp add: renderEffect_ok allFrames_def frames0_def endEffectorFrame_def extractFrame_def)

theorem C6_eleven_frames_witness:
  "\<exists>out. renderEffect initialJoints 5 = Inr out \<and> length (evalFrames out) = 11"
proof -
  have l: "9 \<le> length initialJoints"
    by (simp add: length_initialJoints)
  from C6_eleven_frames [OF l, of 5] show ?thesis by blast
qed

text \<open>
  Claim C6 as stated fails: on the initial joints with the initial payload of 5 kg the
  evaluation succeeds and the list of frames does not have 10 elements.
\<close>

theorem C6_ten_frames_counterexample:
  "renderEffect initialJoints 5 = Inr (projr (renderEffect initialJoints 5))
   \<and> length (evalFrames (projr (renderEffect initialJoints 5))) \<noteq> 10"
  by (simp add: renderEffect_def length_initialJoints allFrames_def)

section \<open>Stress, trajectory, integrator and torque table: the claims\<close>

text \<open>
  Claim C7. For every torque and every link, \<open>calcStress\<close> is the torque times half the
  outer diameter, divided by the area moment of inertia and by \<open>10^6\<close>. In every successful
  evaluation the three stress results are those of the
  Shoulder, the Elbow and the Wrist, and the stress of each, in MPa, is its torque times
  half the outer diameter, divided by the area moment of inertia
  \<open>pi * (OD^4 - ID^4) / 64\<close> with \<open>ID = OD - 2 * thickness\<close>, divided by \<open>10^6\<close>, for the
  tube of the Upper Arm, the Forearm and the Hand respectively.
\<close>

theorem C7_stress_formula:
  assumes "9 \<le> length joints"
  shows "calcStress torque link =
       torque * (od link / 2) / (pi * (od link ^ 4 - (od link - 2 * thickness link) ^ 4) / 64)
         / 1000000
     \<and> (\<exists>out. renderEffect joints loadMass = Inr out
     \<and> map location (evalStressResults out) = [''Shoulder'', ''Elbow'', ''Wrist'']
     \<and> map stressMPa (evalStressResults out) =
         map (\<lambda>(r, link).
                torqueStatic r * (od link / 2)
                  / (pi * (od link ^ 4 - (od link - 2 * thickness link) ^ 4) / 64) / 1000000)
           (zip (evalStressResults out) [LINKS_UPPER, LINKS_FOREARM, LINKS_HAND]))"
  using assms
  by (simp add: renderEffect_ok stressResults_def stressEntry_def stressS_def stressE_def
      stressW_def calcStress_formula)

theorem C7_stress_formula_witness:
  "\<exists>out. renderEffect initialJoints 5 = Inr out
     \<and> map location (evalStressResults out) = [''Shoulder'', ''Elbow'', ''Wrist'']"
proof -
  have l: "9 \<le> length initialJoints"
    by (simp add: length_initialJoints)
  from C7_stress_formula [OF l, where loadMass = 5 and torque = 1 and link = LINKS_UPPER]
  have "\<exists>out. renderEffect initialJoints 5 = Inr out
     \<and> map location (evalStressResults out) = [''Shoulder'', ''Elbow'', ''Wrist'']
     \<and> map stressMPa (evalStressResults out) =
         map (\<lambda>(r, link).
                torqueStatic r * (od link / 2)
                  / (pi * (od link ^ 4 - (od link - 2 * thickness link) ^ 4) / 64) / 1000000)
           (zip (evalStressResults out) [LINKS_UPPER, LINKS_FOREARM, LINKS_HAND])"
    by (rule conjunct2)
  then show ?thesis by auto
qed

text \<open>
  Claim C8. When the wall-clock deltas of two ticks from the same state are both at
  least 0.1 s, the two ticks leave the same joints (angle, velocity and target of every
  joint) and the same animation time: both are the step with \<open>dt = 0.1\<close>, since the tick
  uses the minimum of the delta and 0.1 s.
\<close>

theorem C8_dt_clamped:
  assumes "0.1 \<le> (ta - lastTime st) / 1000" and "0.1 \<le> (tb - lastTime st) / 1000"
  shows "jointsState (animate st ta) = jointsState (animate st tb)
     \<and> timeRef (animate st ta) = timeRef (animate st tb)
     \<and> jointsState (animate st ta) =
         map (\<lambda>(i, j). stepJoint 0.1 (if isPlayingRef st then timeRef st + 0.1 else timeRef st)
                (isPlayingRef st) i j)
           (enumerate 0 (jointsState st))"
proof -
  have da: "min ((ta - lastTime st) / 1000) 0.1 = 0.1"
    using assms(1) by (simp add: min_def)
  have db: "min ((tb - lastTime st) / 1000) 0.1 = 0.1"
    using assms(2) by (simp add: min_def)
  show ?thesis
    unfolding animate_def Let_def da db by simp
qed

text \<open>The witness: a gap of 5 s and a gap of 0.1 s, from the initial joints while playing.\<close>

theorem C8_dt_clamped_witness:
  "jointsState (animate \<lparr>lastTime = 0, timeRef = 0, isPlayingRef = True,
                         jointsState = initialJoints\<rparr> 5000)
   = jointsState (animate \<lparr>lastTime = 0, timeRef = 0, isPlayingRef = True,
                           jointsState = initialJoints\<rparr> 100)"
  using C8_dt_clamped
    [where st = "\<lparr>lastTime = 0, timeRef = 0, isPlayingRef = True, jointsState = initialJoints\<rparr>"
      and ta = 5000 and tb = 100]
  by simp

text \<open>
  Claim C9. The trajectory starts empty and changes only through the updater, so it
  never holds more than 150 points; the updater keeps a bound of 150; and when it
  appends a point to a trajectory of 150 points (the new point is not within 5 mm of the
  last one in both X and Y), the result is the old trajectory without its first point,
  followed by the new point: again 150 points, in order.
\<close>

theorem C9_trajectory_bound:
  "length (foldl updateTrajectory [] pts) \<le> 150
   \<and> (length prev \<le> 150 \<longrightarrow> length (updateTrajectory prev ee) \<le> 150)
   \<and> (length prev = 150
        \<and> \<not> (\<bar>x (last prev) - x ee\<bar> < 0.005 \<and> \<bar>y (last prev) - y ee\<bar> < 0.005)
      \<longrightarrow> updateTrajectory prev ee = tl prev @ [ee]
          \<and> length (updateTrajectory prev ee) = 150)"
  using length_foldl_updateTrajectory [of "[]" pts] length_updateTrajectory [of prev ee]
    updateTrajectory_full [of prev ee]
  by auto

theorem C9_trajectory_bound_witness:
  "length (foldl updateTrajectory [] [\<lparr>x = 0, y = 0, z = 0\<rparr>, \<lparr>x = 1, y = 0, z = 0\<rparr>]) \<le> 150
   \<and> updateTrajectory (replicate 150 \<lparr>x = 0, y = 0, z = 0\<rparr>) \<lparr>x = 1, y = 0, z = 0\<rparr>
       = tl (replicate 150 \<lparr>x = 0, y = 0, z = 0\<rparr>) @ [\<lparr>x = 1, y = 0, z = 0\<rparr>]
   \<and> length (updateTrajectory (replicate 150 \<lparr>x = 0, y = 0, z = 0\<rparr>) \<lparr>x = 1, y = 0, z = 0\<rparr>)
       = 150"
  using C9_trajectory_bound [of "[\<lparr>x = 0, y = 0, z = 0\<rparr>, \<lparr>x = 1, y = 0, z = 0\<rparr>]"
      "replicate 150 \<lparr>x = 0, y = 0, z = 0\<rparr>" "\<lparr>x = 1, y = 0, z = 0\<rparr>"]
  by simp

text \<open>
  Claim C10. The joints of the component always carry the ten ids they start with. For
  such joints, whatever their angles and whatever the payload mass, every joint whose id
  is none of \<open>j2\<close>, \<open>j5\<close> and \<open>j7_y\<close> gets the torque 0.1 in the published table.
\<close>

theorem C10_placeholder_torque:
  assumes "map jid joints = map jid initialJoints"
    and "j \<in> set joints"
    and "jid j \<notin> {''j2'', ''j5'', ''j7_y''}"
  shows "\<exists>out. renderEffect joints loadMass = Inr out
           \<and> evalJointTorques out (jid j) = Some 0.1"
proof -
  have "length (map jid joints) = 10"
    by (simp add: assms(1) length_initialJoints)
  then have l: "9 \<le> length joints" by simp
  have "torqueMapPivots joints loadMass (jid j) = None"
    using assms(3) by (simp add: torqueMapPivots_def)
  with assms(2) have "torqueMap joints loadMass (jid j) = Some 0.1"
    by (simp add: torqueMap_def foldl_fillTorque)
  with l show ?thesis by (simp add: renderEffect_ok)
qed

theorem C10_placeholder_torque_witness:
  "\<exists>out. renderEffect initialJoints 5 = Inr out \<and> evalJointTorques out ''j9'' = Some 0.1"
proof -
  have m: "initialJoints ! 9 \<in> set initialJoints"
    by (rule nth_mem) (simp add: length_initialJoints)
  have i: "jid (initialJoints ! 9) = ''j9''"
    by (simp add: initialJoints_def)
  from C10_placeholder_torque [OF refl m, of 5] i show ?thesis by simp
qed

section \<open>Payload, moments and safety factors: the claims\<close>







end
